theory Spec2Isabelle
  imports Main "HOL-Library.Word" "HOL-Library.Multiset"
begin

unbundle bit_operations_syntax

section \<open>Heap functions\<close>

text \<open>
  The functions of \<^verbatim>\<open>win32-crt.c\<close> sit on three primitives of the operating system:
  \<^verbatim>\<open>HeapAlloc\<close>, \<^verbatim>\<open>HeapFree\<close> and \<^verbatim>\<open>HeapReAlloc\<close>, all called on the handle that
  \<^verbatim>\<open>GetProcessHeap()\<close> returns. They are not part of the repository, so the model takes
  them as a parameter: a record of three functions over an arbitrary type \<open>'h\<close> of heap
  states. Addresses and sizes (\<open>'p\<close> in the record) are words of the width of
  \<^verbatim>\<open>size_t\<close>, and \<^verbatim>\<open>NULL\<close> is \<open>0\<close>.
  The \<^verbatim>\<open>BOOL\<close> that \<^verbatim>\<open>HeapFree\<close> returns is dropped by every caller in the file.
\<close>

record ('h, 'p) heap_api =
  HeapAlloc :: "'h \<Rightarrow> 32 word \<Rightarrow> 'p \<Rightarrow> 'p \<times> 'h"
  HeapFree :: "'h \<Rightarrow> 'p \<Rightarrow> 'h"
  HeapReAlloc :: "'h \<Rightarrow> 'p \<Rightarrow> 'p \<Rightarrow> 'p \<times> 'h"

text \<open>\<^verbatim>\<open>malloc\<close>: a request of zero bytes is turned into a request of one byte.\<close>

definition malloc :: "('h, 'a::len word) heap_api \<Rightarrow> 'h \<Rightarrow> 'a word \<Rightarrow> 'a word \<times> 'h" where
  "malloc os h sz = HeapAlloc os h 0 (if sz = 0 then 1 else sz)"

text \<open>\<^verbatim>\<open>free\<close>: releasing \<^verbatim>\<open>NULL\<close> does nothing.\<close>

definition free :: "('h, 'a::len word) heap_api \<Rightarrow> 'h \<Rightarrow> 'a word \<Rightarrow> 'h" where
  "free os h ptr = (if ptr \<noteq> 0 then HeapFree os h ptr else h)"

text \<open>\<^verbatim>\<open>realloc\<close>: the null block first, then the zero size, then the primitive.\<close>

definition realloc :: "('h, 'a::len word) heap_api \<Rightarrow> 'h \<Rightarrow> 'a word \<Rightarrow> 'a word \<Rightarrow> 'a word \<times> 'h" where
  "realloc os h ptr sz =
     (if ptr = 0 then malloc os h sz
      else if sz = 0 then (0, HeapFree os h ptr)
      else HeapReAlloc os h ptr sz)"

subsection \<open>A heap to run the functions on\<close>

text \<open>
  A small instance of the primitives, used to run the functions on concrete inputs: a
  heap is the next free address and the first address beyond the arena, together with
  the list of blocks released so far. A request that does not fit returns \<^verbatim>\<open>NULL\<close> and
  leaves the heap as it was.
\<close>

record 'p bump_heap =
  next_free :: "'p"
  arena_end :: "'p"
  released :: "'p list"

definition bump_alloc :: "'a::len word bump_heap \<Rightarrow> 32 word \<Rightarrow> 'a word \<Rightarrow> 'a word \<times> 'a word bump_heap" where
  "bump_alloc h flags sz =
     (if unat (next_free h) + unat sz \<le> unat (arena_end h)
      then (next_free h, h\<lparr>next_free := next_free h + sz\<rparr>)
      else (0, h))"

definition bump_free :: "'a::len word bump_heap \<Rightarrow> 'a word \<Rightarrow> 'a word bump_heap" where
  "bump_free h p = h\<lparr>released := p # released h\<rparr>"

definition bump_api :: "('a::len word bump_heap, 'a word) heap_api" where
  "bump_api = \<lparr>HeapAlloc = bump_alloc, HeapFree = bump_free,
               HeapReAlloc = (\<lambda>h p sz. bump_alloc (bump_free h p) 0 sz)\<rparr>"

definition heap0 :: "64 word bump_heap" where
  "heap0 = \<lparr>next_free = 4096, arena_end = 8192, released = []\<rparr>"

section \<open>The null block and the zero size of realloc\<close>

text \<open>
  C6. \<^verbatim>\<open>realloc(NULL, n)\<close> is \<^verbatim>\<open>malloc(n)\<close>: the same address and the same heap
  afterwards, for every size and every behaviour of the primitives. For a block \<open>p\<close>
  other than \<^verbatim>\<open>NULL\<close>, \<^verbatim>\<open>realloc(p, 0)\<close> returns \<^verbatim>\<open>NULL\<close> and leaves the heap
  that \<^verbatim>\<open>free(p)\<close> leaves.
\<close>

theorem realloc_null_and_zero:
  "realloc os h 0 n = malloc os h n \<and>
   (p \<noteq> 0 \<longrightarrow> realloc os h p 0 = (0, free os h p) \<and> free os h p = HeapFree os h p)"
  by (simp add: realloc_def free_def)

theorem realloc_null_and_zero_witness:
  "realloc bump_api heap0 0 16 = malloc bump_api heap0 16 \<and>
   malloc bump_api heap0 16 = (4096, heap0\<lparr>next_free := 4112\<rparr>) \<and>
   (4096::64 word) \<noteq> 0 \<and>
   realloc bump_api heap0 4096 0 = (0, heap0\<lparr>released := [4096]\<rparr>)"
  using realloc_null_and_zero [of bump_api heap0 16 4096]
  by (simp add: malloc_def free_def bump_api_def bump_alloc_def bump_free_def heap0_def)

end
